theory Spec2Isabelle
  imports Complex_Main
begin

section \<open>JavaScript numbers and optional values\<close>

text \<open>
  A JavaScript \<open>number\<close> is an IEEE double. The model keeps the three non-finite
  values apart from the finite ones and computes on finite values in the reals: rounding,
  overflow of finite results and the sign of zero are not modelled. The sign of zero is
  never observable in the functions below: every divisor that can be zero is either the
  literal \<open>0\<close>, \<open>0 / 1000\<close>, or a sum that cancels, all of which are \<open>+0\<close>.
\<close>

datatype jsnum = Fin real | PInf | NInf | NaN


fun jneg :: "jsnum \<Rightarrow> jsnum" where
  "jneg (Fin a) = Fin (- a)"
| "jneg PInf = NInf"
| "jneg NInf = PInf"
| "jneg NaN = NaN"

text \<open>\<open>signed a x\<close> is \<open>x\<close> when \<open>a\<close> is positive and \<open>-x\<close> when it is negative.\<close>

definition signed :: "real \<Rightarrow> jsnum \<Rightarrow> jsnum" where
  "signed a x = (if 0 < a then x else jneg x)"

fun jadd :: "jsnum \<Rightarrow> jsnum \<Rightarrow> jsnum" where
  "jadd NaN _ = NaN"
| "jadd _ NaN = NaN"
| "jadd (Fin a) (Fin b) = Fin (a + b)"
| "jadd (Fin a) y = y"
| "jadd x (Fin b) = x"
| "jadd PInf PInf = PInf"
| "jadd NInf NInf = NInf"
| "jadd PInf NInf = NaN"
| "jadd NInf PInf = NaN"

definition jsub :: "jsnum \<Rightarrow> jsnum \<Rightarrow> jsnum" where
  "jsub x y = jadd x (jneg y)"

fun jmul :: "jsnum \<Rightarrow> jsnum \<Rightarrow> jsnum" where
  "jmul NaN _ = NaN"
| "jmul _ NaN = NaN"
| "jmul (Fin a) (Fin b) = Fin (a * b)"
| "jmul (Fin a) y = (if a = 0 then NaN else signed a y)"
| "jmul x (Fin b) = (if b = 0 then NaN else signed b x)"
| "jmul PInf y = y"
| "jmul NInf y = jneg y"

fun jdiv :: "jsnum \<Rightarrow> jsnum \<Rightarrow> jsnum" where
  "jdiv NaN _ = NaN"
| "jdiv _ NaN = NaN"
| "jdiv (Fin a) (Fin b) =
     (if b \<noteq> 0 then Fin (a / b)
      else if 0 < a then PInf else if a < 0 then NInf else NaN)"
| "jdiv (Fin a) y = Fin 0"
| "jdiv x (Fin b) = (if b < 0 then jneg x else x)"
| "jdiv x y = NaN"

text \<open>The relational operators; every comparison with \<open>NaN\<close> is false.\<close>

fun jlt :: "jsnum \<Rightarrow> jsnum \<Rightarrow> bool" where
  "jlt NaN _ = False"
| "jlt _ NaN = False"
| "jlt (Fin a) (Fin b) = (a < b)"
| "jlt _ NInf = False"
| "jlt PInf _ = False"
| "jlt NInf _ = True"
| "jlt (Fin a) PInf = True"

definition jgt :: "jsnum \<Rightarrow> jsnum \<Rightarrow> bool" where
  "jgt x y = jlt y x"

definition jle :: "jsnum \<Rightarrow> jsnum \<Rightarrow> bool" where
  "jle x y = (jlt x y \<or> (x = y \<and> x \<noteq> NaN))"

text \<open>Truthiness of a number: \<open>0\<close> and \<open>NaN\<close> are falsy.\<close>

fun truthy :: "jsnum \<Rightarrow> bool" where
  "truthy (Fin a) = (a \<noteq> 0)"
| "truthy NaN = False"
| "truthy _ = True"

text \<open>
  A value of type \<open>number | undefined | null\<close>: the optional numeric columns of a row,
  which the store delivers as \<open>null\<close> and the type declarations as \<open>undefined\<close>.
\<close>

datatype optnum = Undefined | Null | Num jsnum

fun truthyO :: "optnum \<Rightarrow> bool" where
  "truthyO (Num x) = truthy x"
| "truthyO _ = False"

text \<open>\<open>v || 0\<close>\<close>

fun orZero :: "optnum \<Rightarrow> jsnum" where
  "orZero (Num x) = (if truthy x then x else Fin 0)"
| "orZero _ = Fin 0"

definition orZeroN :: "jsnum \<Rightarrow> jsnum" where
  "orZeroN x = (if truthy x then x else Fin 0)"

section \<open>Dates\<close>

text \<open>
  An instant is its number of milliseconds since the epoch. The source compares dates as
  ISO strings \<open>YYYY-MM-DDT00:00:00.000Z\<close>; on such normalized strings of four-digit years
  string equality and order are equality and order of the instants. The process time
  zone is taken to be UTC, so that \<open>setDate (getDate () + days)\<close> adds whole days.
  Every date string is taken to parse: \<open>toISOString\<close> of an invalid date throws, which
  \<open>calculateCurrentNAV\<close> would catch and answer with \<open>null\<close>.
\<close>

definition msPerDay :: int where
  "msPerDay = 1000 * 3600 * 24"

definition normalizeDate :: "int \<Rightarrow> int" where
  "normalizeDate t = (t div msPerDay) * msPerDay"

definition addDays :: "int \<Rightarrow> int \<Rightarrow> int" where
  "addDays date days = date + days * msPerDay"

text \<open>\<open>Math.ceil (timeDiff / (1000 * 3600 * 24))\<close>\<close>

definition differenceInDays :: "int \<Rightarrow> int \<Rightarrow> int" where
  "differenceInDays date1 date2 = - ((- (date1 - date2)) div msPerDay)"

section \<open>Rows\<close>

record CompanyMetrics =
  row_id :: string
  company_id :: string
  date :: int
  eth_holdings :: optnum
  avg_buy_price :: optnum
  usd_holdings :: optnum
  staking_rewards :: optnum
  shares_outstanding :: optnum
  market_cap :: optnum
  eth_concentration :: optnum
  issued_atm_shares :: optnum
  m_notes :: "string option"

text \<open>
  The \<open>date\<close> string of a price row matches a day either as the date-only string
  \<open>YYYY-MM-DD\<close> or as the full ISO string of an instant; any other text matches nothing.
\<close>

datatype price_date = DateOnly int | DateIso int | OtherText

record StockPrice =
  sp_date :: price_date
  close :: optnum

record CompanyMetric =
  companyId :: string
  dateIso :: int
  weightedAvgBuyPrice :: jsnum
  ethHoldings :: jsnum
  avgBuyPrice :: jsnum
  usdHoldings :: jsnum
  stakingRewards :: jsnum
  sharesOutstanding :: jsnum
  marketCap :: jsnum
  ethConcentration :: jsnum
  issuedAtmShares :: jsnum
  cm_notes :: string
  sharesBoughtBack :: jsnum

section \<open>The series filler\<close>

text \<open>\<open>xs.sort ((a, b) => b.date.localeCompare (a.date))[0]\<close>: stable, latest date first.\<close>

definition latestFirst :: "('a \<Rightarrow> int) \<Rightarrow> 'a list \<Rightarrow> 'a list" where
  "latestFirst f xs = sort_key (\<lambda>m. - f m) xs"

text \<open>
  The four getters that skip falsy values share one body, here \<open>getLastKnown\<close> with the
  field as a parameter; each getter of the source is an instance.
\<close>

definition getLastKnown :: "(CompanyMetrics \<Rightarrow> optnum) \<Rightarrow> CompanyMetrics list \<Rightarrow> int \<Rightarrow> optnum" where
  "getLastKnown fld metrics d =
     (let currentMetric = find (\<lambda>metric. date metric = d) metrics;
          previous =
            (case latestFirst date (filter (\<lambda>m. date m < d \<and> truthyO (fld m)) metrics) of
               [] \<Rightarrow> Undefined
             | m # _ \<Rightarrow> fld m)
      in case currentMetric of
           Some c \<Rightarrow> if truthyO (fld c) then fld c else previous
         | None \<Rightarrow> previous)"

definition getLastKnownEthHoldings :: "CompanyMetrics list \<Rightarrow> int \<Rightarrow> optnum" where
  "getLastKnownEthHoldings = getLastKnown eth_holdings"

definition getLastKnownAvgBuyPrice :: "CompanyMetrics list \<Rightarrow> int \<Rightarrow> optnum" where
  "getLastKnownAvgBuyPrice = getLastKnown avg_buy_price"

definition getLastKnownStakingRewards :: "CompanyMetrics list \<Rightarrow> int \<Rightarrow> optnum" where
  "getLastKnownStakingRewards = getLastKnown staking_rewards"

definition getLastKnownEthConcentration :: "CompanyMetrics list \<Rightarrow> int \<Rightarrow> optnum" where
  "getLastKnownEthConcentration = getLastKnown eth_concentration"

fun usdHoldingsExist :: "optnum \<Rightarrow> bool" where
  "usdHoldingsExist (Num _) = True"
| "usdHoldingsExist _ = False"

definition getLastKnownUsdHoldings :: "CompanyMetrics list \<Rightarrow> int \<Rightarrow> jsnum" where
  "getLastKnownUsdHoldings metrics d =
     (let currentMetric = find (\<lambda>metric. date metric = d) metrics;
          currentUsdHoldings =
            (case currentMetric of None \<Rightarrow> Undefined | Some c \<Rightarrow> usd_holdings c)
      in if usdHoldingsExist currentUsdHoldings
         then jmul (orZero currentUsdHoldings) (Fin 1000000)
         else (case latestFirst date
                      (filter (\<lambda>m. date m < d \<and> usdHoldingsExist (usd_holdings m)) metrics) of
                 [] \<Rightarrow> jmul (Fin 0) (Fin 1000000)
               | m # _ \<Rightarrow> jmul (orZero (usd_holdings m)) (Fin 1000000)))"

definition getLastKnownSharesOutstanding :: "CompanyMetric list \<Rightarrow> int \<Rightarrow> optnum" where
  "getLastKnownSharesOutstanding companyMetrics d =
     (case latestFirst dateIso
             (filter (\<lambda>m. dateIso m < d \<and> truthy (sharesOutstanding m)) companyMetrics) of
        [] \<Rightarrow> Undefined
      | m # _ \<Rightarrow> Num (sharesOutstanding m))"

definition getLastKnownSharesBoughtBack :: "CompanyMetric list \<Rightarrow> int \<Rightarrow> optnum" where
  "getLastKnownSharesBoughtBack companyMetrics d =
     (case latestFirst dateIso
             (filter (\<lambda>m. dateIso m < d \<and> truthy (sharesBoughtBack m)) companyMetrics) of
        [] \<Rightarrow> Undefined
      | m # _ \<Rightarrow> Num (sharesBoughtBack m))"

text \<open>\<open>p.date === dateOnly || p.date === dateIso\<close>, for a normalized day \<open>d\<close>.\<close>

fun priceMatches :: "int \<Rightarrow> StockPrice \<Rightarrow> bool" where
  "priceMatches d p =
     (case sp_date p of
        DateOnly k \<Rightarrow> k = d div msPerDay
      | DateIso t \<Rightarrow> t = d
      | OtherText \<Rightarrow> False)"

definition hasAnyMetricData :: "CompanyMetrics list \<Rightarrow> int \<Rightarrow> bool" where
  "hasAnyMetricData normalizedMetrics d =
     list_ex (\<lambda>m. date m \<le> d \<and>
                (eth_holdings m \<noteq> Undefined \<or> eth_concentration m \<noteq> Undefined \<or>
                 avg_buy_price m \<noteq> Undefined \<or> usd_holdings m \<noteq> Undefined \<or>
                 staking_rewards m \<noteq> Undefined)) normalizedMetrics"

text \<open>
  The body of the loop after the price check: the row pushed for day \<open>d\<close>, or \<open>None\<close>
  where the source says \<open>continue\<close>. \<open>companyMetrics\<close> is the output so far.
\<close>

definition dayRow :: "CompanyMetrics list \<Rightarrow> jsnum \<Rightarrow> CompanyMetric list \<Rightarrow> int \<Rightarrow> CompanyMetric option" where
  "dayRow normalizedMetrics lastKnownStockPrice companyMetrics d =
     (let lastKnownEthHoldings = getLastKnownEthHoldings normalizedMetrics d;
          lastKnownUsdHoldings = getLastKnownUsdHoldings normalizedMetrics d;
          lastKnownAvgBuyPrice = getLastKnownAvgBuyPrice normalizedMetrics d;
          lastKnownStakingRewards = getLastKnownStakingRewards normalizedMetrics d;
          lastKnownEthConcentration = getLastKnownEthConcentration normalizedMetrics d
      in if \<not> hasAnyMetricData normalizedMetrics d then None
         else
           let ethConcentration' = orZero lastKnownEthConcentration;
               ethHoldings' = orZero lastKnownEthHoldings;
               sharesOutstanding' = jdiv ethHoldings' (jdiv ethConcentration' (Fin 1000));
               lastKnownSharesOutstanding = getLastKnownSharesOutstanding companyMetrics d;
               lastKnownSharesBoughtBack = getLastKnownSharesBoughtBack companyMetrics d;
               issuedAtmShares' =
                 (if truthyO lastKnownSharesOutstanding
                  then jsub sharesOutstanding' (orZero lastKnownSharesOutstanding)
                  else sharesOutstanding');
               originalMetric = find (\<lambda>metric. date metric = d) normalizedMetrics;
               companyId' =
                 (case originalMetric of
                    Some m \<Rightarrow> if company_id m \<noteq> [] then company_id m
                              else (case normalizedMetrics of [] \<Rightarrow> [] | m0 # _ \<Rightarrow> company_id m0)
                  | None \<Rightarrow> (case normalizedMetrics of [] \<Rightarrow> [] | m0 # _ \<Rightarrow> company_id m0))
           in if companyId' = [] then None
              else Some \<lparr> companyId = companyId',
                          dateIso = d,
                          weightedAvgBuyPrice = orZero lastKnownAvgBuyPrice,
                          ethHoldings = orZero lastKnownEthHoldings,
                          avgBuyPrice = orZero lastKnownAvgBuyPrice,
                          usdHoldings = orZeroN lastKnownUsdHoldings,
                          stakingRewards = orZero lastKnownStakingRewards,
                          sharesOutstanding = sharesOutstanding',
                          marketCap = jmul lastKnownStockPrice sharesOutstanding',
                          ethConcentration = orZero lastKnownEthConcentration,
                          issuedAtmShares = issuedAtmShares',
                          cm_notes = (case originalMetric of
                                        Some m \<Rightarrow> (case m_notes m of Some n \<Rightarrow> n | None \<Rightarrow> [])
                                      | None \<Rightarrow> []),
                          sharesBoughtBack = orZero lastKnownSharesBoughtBack \<rparr>)"

text \<open>
  The \<open>for (const date of dates)\<close> loop, threading \<open>lastKnownStockPrice\<close> and the
  output array.
\<close>

fun fillLoop :: "CompanyMetrics list \<Rightarrow> StockPrice list \<Rightarrow> int list \<Rightarrow> optnum \<Rightarrow> CompanyMetric list \<Rightarrow> CompanyMetric list" where
  "fillLoop normalizedMetrics stockPrices [] lastKnownStockPrice companyMetrics = companyMetrics"
| "fillLoop normalizedMetrics stockPrices (d # ds) lastKnownStockPrice companyMetrics =
     (let stockPriceAtClose =
            (case find (priceMatches d) stockPrices of None \<Rightarrow> Undefined | Some p \<Rightarrow> close p);
          lastKnownStockPrice' =
            (if truthyO stockPriceAtClose then stockPriceAtClose else lastKnownStockPrice)
      in if \<not> truthyO lastKnownStockPrice'
         then fillLoop normalizedMetrics stockPrices ds lastKnownStockPrice' companyMetrics
         else (case dayRow normalizedMetrics (orZero lastKnownStockPrice') companyMetrics d of
                 None \<Rightarrow> fillLoop normalizedMetrics stockPrices ds lastKnownStockPrice' companyMetrics
               | Some companyMetric \<Rightarrow>
                   fillLoop normalizedMetrics stockPrices ds lastKnownStockPrice'
                     (companyMetrics @ [companyMetric])))"

text \<open>
  \<open>postFillMetrics metrics stockPrices startDate now\<close>; \<open>startDate\<close> is the instant
  \<open>new Date (startDate)\<close> and \<open>now\<close> the instant \<open>new Date ()\<close>.
\<close>

definition fillDates :: "int \<Rightarrow> int \<Rightarrow> int list" where
  "fillDates startDate now =
     (let normalizedStartDate = normalizeDate startDate
      in filter (\<lambda>d. d \<ge> startDate)
           (map (\<lambda>i. addDays normalizedStartDate i)
                [0 .. differenceInDays now normalizedStartDate]))"

definition postFillMetrics :: "CompanyMetrics list \<Rightarrow> StockPrice list \<Rightarrow> int \<Rightarrow> int \<Rightarrow> CompanyMetric list" where
  "postFillMetrics metrics stockPrices startDate now =
     (let normalizedMetrics = map (\<lambda>metric. metric\<lparr>date := normalizeDate (date metric)\<rparr>) metrics
      in fillLoop normalizedMetrics stockPrices (fillDates startDate now) Undefined [])"

section \<open>The NAV computation\<close>

record NavMetric =
  nav_companyId :: string
  nav_date :: int
  navPerShare :: jsnum
  stockPrice :: jsnum
  ethPrice :: jsnum
  mNav :: jsnum
  totalNavValue :: jsnum

text \<open>
  What the asynchronous helpers return when they are called: each of them catches its own
  errors and returns a number or an array, so a call is a read of the world. \<open>clock\<close>
  is \<open>new Date ()\<close>, one instant for the whole invocation.
\<close>

record World =
  clock :: int
  getCurrentEthPrice :: jsnum
  getCurrentBmnrPrice :: jsnum
  getAllCompanyMetrics :: "string \<Rightarrow> CompanyMetrics list"
  getStockPrices :: "string \<Rightarrow> StockPrice list"
  getAlternativeAssetsValue :: "string \<Rightarrow> jsnum"

text \<open>\<open>new Date ("2025-06-12")\<close>\<close>

definition startDate_2025_06_12 :: int where
  "startDate_2025_06_12 = 20251 * msPerDay"

text \<open>
  The last part of \<open>calculateCurrentNAV\<close>, from the destructuring of \<open>latestMetric\<close>
  to the returned object. \<open>usdHoldings === undefined\<close> cannot hold of a
  \<open>CompanyMetric\<close>, whose \<open>usdHoldings\<close> is a number.
\<close>

definition navOfLatestMetric :: "string \<Rightarrow> int \<Rightarrow> CompanyMetric \<Rightarrow> jsnum \<Rightarrow> jsnum \<Rightarrow> jsnum \<Rightarrow> NavMetric option" where
  "navOfLatestMetric cid now latestMetric stockPrice' ethPrice' alternativeAssetsValue =
     (if \<not> truthy (ethHoldings latestMetric) \<or> \<not> truthy (sharesOutstanding latestMetric)
      then None
      else
        let ethMarketValue = jmul (ethHoldings latestMetric) ethPrice';
            totalNavValue' = jadd (jadd ethMarketValue (usdHoldings latestMetric)) alternativeAssetsValue;
            navPerShare' = jdiv totalNavValue' (sharesOutstanding latestMetric);
            marketCap' = jmul stockPrice' (sharesOutstanding latestMetric);
            mNav' = jdiv marketCap' totalNavValue'
        in Some \<lparr> nav_companyId = cid,
                    nav_date = now div msPerDay,
                    navPerShare = navPerShare',
                    stockPrice = stockPrice',
                    ethPrice = ethPrice',
                    mNav = mNav',
                    totalNavValue = totalNavValue' \<rparr>)"

definition calculateCurrentNAV :: "World \<Rightarrow> string \<Rightarrow> optnum \<Rightarrow> optnum \<Rightarrow> NavMetric option" where
  "calculateCurrentNAV w cid currentStockPrice currentEthPrice =
     (let ethPrice' = (if truthyO currentEthPrice then orZero currentEthPrice
                       else getCurrentEthPrice w);
          stockPrice' = (if truthyO currentStockPrice then orZero currentStockPrice
                         else getCurrentBmnrPrice w)
      in if \<not> truthy ethPrice' \<or> \<not> truthy stockPrice' then None
         else
           let allMetrics = getAllCompanyMetrics w cid;
               allStockPrices = getStockPrices w cid
           in if allMetrics = [] \<or> allStockPrices = [] then None
              else
                let processedMetrics =
                      postFillMetrics allMetrics allStockPrices startDate_2025_06_12 (clock w)
                in if processedMetrics = [] then None
                   else navOfLatestMetric cid (clock w) (last processedMetrics)
                          stockPrice' ethPrice' (getAlternativeAssetsValue w cid))"

text \<open>\<open>navResult?.mNav || null\<close>\<close>

definition calculateCurrentMnav :: "World \<Rightarrow> string \<Rightarrow> jsnum option" where
  "calculateCurrentMnav w cid =
     (case calculateCurrentNAV w cid Undefined Undefined of
        None \<Rightarrow> None
      | Some navResult \<Rightarrow> if truthy (mNav navResult) then Some (mNav navResult) else None)"

text \<open>
  The monitor service has its own \<open>calculateCurrentMnav\<close>, on the latest raw rows. Its
  arguments are the rows the two queries return (empty on an error) and the price its
  \<open>getCurrentEthPrice\<close> returns.
\<close>

definition MnavMonitorService_calculateCurrentMnav :: "CompanyMetrics list \<Rightarrow> StockPrice list \<Rightarrow> optnum \<Rightarrow> jsnum option" where
  "MnavMonitorService_calculateCurrentMnav metrics stockPrices currentEthPrice =
     (case metrics of
        [] \<Rightarrow> None
      | latestMetric # _ \<Rightarrow>
          (case stockPrices of
             [] \<Rightarrow> None
           | latestStockPrice # _ \<Rightarrow>
               if \<not> truthyO currentEthPrice then None
               else if \<not> truthyO (close latestStockPrice) then None
               else
                 let marketCap' = jmul (orZero (shares_outstanding latestMetric))
                                       (orZero (close latestStockPrice));
                     totalNavValue' =
                       jadd (jmul (orZero (eth_holdings latestMetric)) (orZero currentEthPrice))
                            (orZero (usd_holdings latestMetric))
                 in if jle totalNavValue' (Fin 0) then None
                    else Some (jdiv marketCap' totalNavValue')))"

section \<open>The alert monitor\<close>

record ActiveAlert =
  alert_id :: string
  user_id :: string
  alert_company_id :: string
  threshold_value :: jsnum
  alert_type :: string
  is_active :: bool
  last_triggered_at :: "int option"

record Notification =
  n_alert_id :: string
  n_user_id :: string
  n_company_id :: string
  mnav_value :: jsnum
  n_threshold_value :: jsnum
  n_alert_type :: string

text \<open>The two tables the monitor writes. A notification's id is its position in the table.\<close>

record Store =
  mnav_threshold_alerts :: "ActiveAlert list"
  mnav_notifications :: "Notification list"

text \<open>
  One invocation: the world it reads, and which of its store calls report an error. An
  alert whose id is unique is visited once in an invocation, so the outcome of its insert
  and of its update is given per alert. \<open>clock (world iv)\<close> stands for every
  \<open>Date.now ()\<close> and \<open>new Date ()\<close> of the invocation.
\<close>

record Invocation =
  world :: World
  alertsError :: bool
  notificationError :: "ActiveAlert \<Rightarrow> bool"
  updateError :: "ActiveAlert \<Rightarrow> bool"

definition sixHours :: int where
  "sixHours = 6 * 60 * 60 * 1000"

definition checkAlertCondition :: "jsnum \<Rightarrow> jsnum \<Rightarrow> string \<Rightarrow> bool" where
  "checkAlertCondition currentMnav threshold alertType =
     (if alertType = ''above'' then jgt currentMnav threshold
      else if alertType = ''below'' then jlt currentMnav threshold
      else False)"

definition checkCooldownPeriod :: "int \<Rightarrow> int option \<Rightarrow> bool" where
  "checkCooldownPeriod now lastTriggered =
     (case lastTriggered of
        None \<Rightarrow> True
      | Some lastTriggeredDate \<Rightarrow> lastTriggeredDate < now - sixHours)"

text \<open>
  Modelled from the spec: the view \<open>active_mnav_alerts\<close> is not among the sources; the
  monitor loads all rules with \<open>active = true\<close>.
\<close>

definition active_mnav_alerts :: "Store \<Rightarrow> ActiveAlert list" where
  "active_mnav_alerts st = filter is_active (mnav_threshold_alerts st)"

text \<open>The \<open>reduce\<close> that groups the alerts by company, in order of first appearance.\<close>

fun pushAlert :: "(string \<times> ActiveAlert list) list \<Rightarrow> ActiveAlert \<Rightarrow> (string \<times> ActiveAlert list) list" where
  "pushAlert [] alert = [(alert_company_id alert, [alert])]"
| "pushAlert ((k, as) # acc) alert =
     (if k = alert_company_id alert then (k, as @ [alert]) # acc
      else (k, as) # pushAlert acc alert)"

definition alertsByCompany :: "ActiveAlert list \<Rightarrow> (string \<times> ActiveAlert list) list" where
  "alertsByCompany alerts = foldl pushAlert [] alerts"

definition insertNotification :: "ActiveAlert \<Rightarrow> jsnum \<Rightarrow> Store \<Rightarrow> Store" where
  "insertNotification alert currentMnav st =
     st\<lparr>mnav_notifications := mnav_notifications st @
          [\<lparr> n_alert_id = alert_id alert,
             n_user_id = user_id alert,
             n_company_id = alert_company_id alert,
             mnav_value = currentMnav,
             n_threshold_value = threshold_value alert,
             n_alert_type = alert_type alert \<rparr>]\<rparr>"

definition updateLastTriggered :: "string \<Rightarrow> int \<Rightarrow> Store \<Rightarrow> Store" where
  "updateLastTriggered aid now st =
     st\<lparr>mnav_threshold_alerts :=
          map (\<lambda>row. if alert_id row = aid then row\<lparr>last_triggered_at := Some now\<rparr> else row)
              (mnav_threshold_alerts st)\<rparr>"

record Progress =
  store :: Store
  alertsTriggered :: nat
  notificationsCreated :: "nat list"

text \<open>The body of the inner loop of \<open>checkMnavThresholds\<close>.\<close>

definition checkOneAlert :: "Invocation \<Rightarrow> jsnum \<Rightarrow> Progress \<Rightarrow> ActiveAlert \<Rightarrow> Progress" where
  "checkOneAlert iv currentMnav s alert =
     (let shouldTrigger =
            checkAlertCondition currentMnav (threshold_value alert) (alert_type alert);
          cooldownPassed = checkCooldownPeriod (clock (world iv)) (last_triggered_at alert)
      in if shouldTrigger \<and> cooldownPassed
         then if notificationError iv alert then s
              else
                let notification_id = length (mnav_notifications (store s));
                    st1 = insertNotification alert currentMnav (store s);
                    st2 = (if updateError iv alert then st1
                           else updateLastTriggered (alert_id alert) (clock (world iv)) st1)
                in \<lparr> store = st2,
                     alertsTriggered = alertsTriggered s + 1,
                     notificationsCreated = notificationsCreated s @ [notification_id] \<rparr>
         else s)"

definition checkCompany :: "Invocation \<Rightarrow> Progress \<Rightarrow> string \<times> ActiveAlert list \<Rightarrow> Progress" where
  "checkCompany iv s entry =
     (case calculateCurrentMnav (world iv) (fst entry) of
        None \<Rightarrow> s
      | Some currentMnav \<Rightarrow> foldl (checkOneAlert iv currentMnav) s (snd entry))"

record CheckResult =
  alertsChecked :: nat
  res_alertsTriggered :: nat
  res_notificationsCreated :: "nat list"

text \<open>\<open>None\<close> is the rethrown \<open>alertsError\<close>; otherwise the summary and the store.\<close>

definition checkMnavThresholds :: "Invocation \<Rightarrow> Store \<Rightarrow> (CheckResult \<times> Store) option" where
  "checkMnavThresholds iv st =
     (if alertsError iv then None
      else
        let alerts = active_mnav_alerts st
        in if alerts = []
           then Some (\<lparr> alertsChecked = 0, res_alertsTriggered = 0,
                         res_notificationsCreated = [] \<rparr>, st)
           else
             let s = foldl (checkCompany iv)
                       \<lparr> store = st, alertsTriggered = 0, notificationsCreated = [] \<rparr>
                       (alertsByCompany alerts)
             in Some (\<lparr> alertsChecked = length alerts,
                         res_alertsTriggered = alertsTriggered s,
                         res_notificationsCreated = notificationsCreated s \<rparr>, store s))"

subsection \<open>The monitor service\<close>

definition MnavMonitorService_shouldTriggerAlert :: "int \<Rightarrow> ActiveAlert \<Rightarrow> jsnum \<Rightarrow> bool" where
  "MnavMonitorService_shouldTriggerAlert now alert currentMnav =
     (let threshold =
            (if alert_type alert = ''below'' then jlt currentMnav (threshold_value alert)
             else if alert_type alert = ''above'' then jgt currentMnav (threshold_value alert)
             else False)
      in case last_triggered_at alert of
           Some lastTriggered \<Rightarrow>
             if now < lastTriggered + 6 * 60 * 60 * 1000 then False else threshold
         | None \<Rightarrow> threshold)"

definition MnavMonitorService_recordTriggeredAlert :: "Invocation \<Rightarrow> ActiveAlert \<Rightarrow> jsnum \<Rightarrow> Store \<Rightarrow> nat option \<times> Store" where
  "MnavMonitorService_recordTriggeredAlert iv alert currentMnav st =
     (if notificationError iv alert then (None, st)
      else
        let notification_id = length (mnav_notifications st);
            st1 = insertNotification alert currentMnav st;
            st2 = (if updateError iv alert then st1
                   else updateLastTriggered (alert_id alert) (clock (world iv)) st1)
        in (Some notification_id, st2))"

section \<open>Observations and example data\<close>

text \<open>
  The inner loop of \<open>checkMnavThresholds\<close> writes for an alert exactly when the condition
  holds, the cooldown has passed and the insert reports no error.
\<close>

definition alertFires :: "Invocation \<Rightarrow> jsnum \<Rightarrow> ActiveAlert \<Rightarrow> bool" where
  "alertFires iv currentMnav alert =
     (checkAlertCondition currentMnav (threshold_value alert) (alert_type alert) \<and>
      checkCooldownPeriod (clock (world iv)) (last_triggered_at alert) \<and>
      \<not> notificationError iv alert)"

definition alertTriggers :: "Invocation \<Rightarrow> ActiveAlert \<Rightarrow> bool" where
  "alertTriggers iv alert =
     (case calculateCurrentMnav (world iv) (alert_company_id alert) of
        None \<Rightarrow> False
      | Some currentMnav \<Rightarrow> alertFires iv currentMnav alert)"

text \<open>The notifications of a rule, and the rows of the alert table with a rule's id.\<close>

definition notificationsFor :: "string \<Rightarrow> Store \<Rightarrow> Notification list" where
  "notificationsFor aid st = filter (\<lambda>n. n_alert_id n = aid) (mnav_notifications st)"

definition rowsOf :: "string \<Rightarrow> Store \<Rightarrow> ActiveAlert list" where
  "rowsOf aid st = filter (\<lambda>row. alert_id row = aid) (mnav_threshold_alerts st)"

text \<open>Every alert of a group belongs to the group's company.\<close>

definition wellKeyed :: "(string \<times> ActiveAlert list) list \<Rightarrow> bool" where
  "wellKeyed groups =
     (\<forall>entry\<in>set groups. \<forall>a\<in>set (snd entry). alert_company_id a = fst entry)"

text \<open>Day \<open>n\<close> of the examples: day 1 is 2025-06-12, at UTC midnight.\<close>

definition day :: "int \<Rightarrow> int" where
  "day n = startDate_2025_06_12 + (n - 1) * msPerDay"

definition disclosure :: "int \<Rightarrow> optnum \<Rightarrow> optnum \<Rightarrow> optnum \<Rightarrow> CompanyMetrics" where
  "disclosure d holdings concentration cash =
     \<lparr> row_id = ''m'', company_id = ''bmnr'', date = d,
       eth_holdings = holdings, avg_buy_price = Undefined, usd_holdings = cash,
       staking_rewards = Undefined, shares_outstanding = Undefined, market_cap = Undefined,
       eth_concentration = concentration, issued_atm_shares = Undefined, m_notes = None \<rparr>"

definition closingPrice :: "int \<Rightarrow> real \<Rightarrow> StockPrice" where
  "closingPrice d c = \<lparr> sp_date = DateOnly (d div msPerDay), close = Num (Fin c) \<rparr>"

text \<open>
  Disclosures on day 1 (holdings 100, concentration 500) and on day 5 (holdings 150), and
  a price on day 1.
\<close>

definition twoDisclosures :: "CompanyMetrics list" where
  "twoDisclosures =
     [disclosure (day 1) (Num (Fin 100)) (Num (Fin 500)) Undefined,
      disclosure (day 5) (Num (Fin 150)) Undefined Undefined]"

definition filledSeries :: "CompanyMetric list" where
  "filledSeries = postFillMetrics twoDisclosures [closingPrice (day 1) 10] (day 1) (day 6)"


text \<open>
  A world with one disclosure on day 1 (holdings 1000, the given concentration and cash,
  in millions) and one closing price; ETH at 2000 and the equity at 250.
\<close>

definition exampleWorld :: "int \<Rightarrow> optnum \<Rightarrow> optnum \<Rightarrow> World" where
  "exampleWorld now concentration cash =
     \<lparr> clock = now,
       getCurrentEthPrice = Fin 2000,
       getCurrentBmnrPrice = Fin 250,
       getAllCompanyMetrics = (\<lambda>_. [disclosure (day 1) (Num (Fin 1000)) concentration cash]),
       getStockPrices = (\<lambda>_. [closingPrice (day 1) 240]),
       getAlternativeAssetsValue = (\<lambda>_. Fin 0) \<rparr>"

text \<open>The latest metric of the NAV round trip: holdings 1000, 10000 shares, cash 500000.\<close>

definition roundTripMetric :: CompanyMetric where
  "roundTripMetric =
     \<lparr> companyId = ''bmnr'', dateIso = day 1, weightedAvgBuyPrice = Fin 0,
       ethHoldings = Fin 1000, avgBuyPrice = Fin 0, usdHoldings = Fin 500000,
       stakingRewards = Fin 0, sharesOutstanding = Fin 10000, marketCap = Fin 2400000,
       ethConcentration = Fin 100, issuedAtmShares = Fin 10000, cm_notes = [],
       sharesBoughtBack = Fin 0 \<rparr>"


text \<open>A rule of company \<open>bmnr\<close>, and a store that holds this rule only.\<close>

definition exampleRule :: "string \<Rightarrow> real \<Rightarrow> int option \<Rightarrow> ActiveAlert" where
  "exampleRule direction threshold lastTriggered =
     \<lparr> alert_id = ''rule-1'', user_id = ''user-1'', alert_company_id = ''bmnr'',
       threshold_value = Fin threshold, alert_type = direction, is_active = True,
       last_triggered_at = lastTriggered \<rparr>"

definition exampleStore :: "ActiveAlert \<Rightarrow> Store" where
  "exampleStore rule = \<lparr> mnav_threshold_alerts = [rule], mnav_notifications = [] \<rparr>"

text \<open>
  An invocation at the given instant, on the world whose mNAV is 1; \<open>failing\<close> says
  whether the insert of a notification reports an error.
\<close>

definition exampleInvocation :: "int \<Rightarrow> bool \<Rightarrow> Invocation" where
  "exampleInvocation now failing =
     \<lparr> world = exampleWorld now (Num (Fin 100)) (Num (Fin (1 / 2))),
       alertsError = False,
       notificationError = (\<lambda>_. failing),
       updateError = (\<lambda>_. False) \<rparr>"

definition oneHour :: int where
  "oneHour = 60 * 60 * 1000"

section \<open>Rows of the series filler\<close>

lemma fillLoop_rows:
  "r \<in> set (fillLoop nm sp ds lk acc) \<Longrightarrow>
     r \<in> set acc \<or> (\<exists>d\<in>set ds. \<exists>p acc'. dayRow nm p acc' d = Some r)"
proof (induction ds arbitrary: lk acc)
  case Nil
  then show ?case by simp
next
  case (Cons d ds)
  define lk' where
    "lk' = (let c = (case find (priceMatches d) sp of None \<Rightarrow> Undefined | Some p \<Rightarrow> close p)
            in if truthyO c then c else lk)"
  show ?case
  proof (cases "truthyO lk'")
    case False
    with Cons.prems have "r \<in> set (fillLoop nm sp ds lk' acc)"
      by (simp add: lk'_def Let_def)
    from Cons.IH[OF this] show ?thesis by auto
  next
    case True
    show ?thesis
    proof (cases "dayRow nm (orZero lk') acc d")
      case None
      with True Cons.prems have "r \<in> set (fillLoop nm sp ds lk' acc)"
        by (simp add: lk'_def Let_def)
      from Cons.IH[OF this] show ?thesis by auto
    next
      case (Some row)
      with True Cons.prems have "r \<in> set (fillLoop nm sp ds lk' (acc @ [row]))"
        by (simp add: lk'_def Let_def)
      from Cons.IH[OF this] Some show ?thesis by auto
    qed
  qed
qed

lemma dayRow_fields:
  assumes "dayRow nm p acc d = Some r"
  shows "dateIso r = d"
    and "ethHoldings r = orZero (getLastKnownEthHoldings nm d)"
    and "ethConcentration r = orZero (getLastKnownEthConcentration nm d)"
    and "sharesOutstanding r = jdiv (ethHoldings r) (jdiv (ethConcentration r) (Fin 1000))"
    and "hasAnyMetricData nm d"
  using assms by (auto simp: dayRow_def Let_def split: if_splits)

lemma postFill_rows:
  assumes "r \<in> set (postFillMetrics metrics stockPrices startDate now)"
  shows "\<exists>p acc. dayRow (map (\<lambda>metric. metric\<lparr>date := normalizeDate (date metric)\<rparr>) metrics)
                   p acc (dateIso r) = Some r"
  using fillLoop_rows[OF assms[unfolded postFillMetrics_def Let_def]] dayRow_fields(1)
  by fastforce







section \<open>Forward fill\<close>

lemma two_disclosures_lookup:
  assumes "eth_holdings m1 = Num (Fin 100)" and "eth_holdings m5 = Num (Fin 150)"
    and "d1 < d5"
  shows "d1 \<le> d \<Longrightarrow> d < d5 \<Longrightarrow>
           getLastKnownEthHoldings [m1\<lparr>date := d1\<rparr>, m5\<lparr>date := d5\<rparr>] d = Num (Fin 100)"
    and "d5 \<le> d \<Longrightarrow>
           getLastKnownEthHoldings [m1\<lparr>date := d1\<rparr>, m5\<lparr>date := d5\<rparr>] d = Num (Fin 150)"
  using assms
  by (auto simp: getLastKnownEthHoldings_def getLastKnown_def latestFirst_def Let_def)

lemma two_disclosures_first_day:
  assumes "d1 < d5" and "hasAnyMetricData [m1\<lparr>date := d1\<rparr>, m5\<lparr>date := d5\<rparr>] d"
  shows "d1 \<le> d"
  using assms by (auto simp: hasAnyMetricData_def)

text \<open>
  C3. With disclosures only on day 1 (holdings 100) and on a later day 5 (holdings 150),
  whatever the prices, the start date and today are: no row is emitted before day 1,
  every emitted row before day 5 reports holdings 100, and every emitted row from day 5
  onward reports 150.
\<close>

theorem forward_fill_correct:
  assumes "eth_holdings m1 = Num (Fin 100)" and "eth_holdings m5 = Num (Fin 150)"
    and "normalizeDate (date m1) < normalizeDate (date m5)"
    and "r \<in> set (postFillMetrics [m1, m5] stockPrices startDate now)"
  shows "normalizeDate (date m1) \<le> dateIso r
       \<and> ethHoldings r = (if dateIso r < normalizeDate (date m5) then Fin 100 else Fin 150)"
proof -
  let ?nm = "[m1\<lparr>date := normalizeDate (date m1)\<rparr>, m5\<lparr>date := normalizeDate (date m5)\<rparr>]"
  from postFill_rows[OF assms(4)] obtain p acc where
    row: "dayRow ?nm p acc (dateIso r) = Some r"
    by auto
  from two_disclosures_first_day[OF assms(3) dayRow_fields(5)[OF row]]
  have first: "normalizeDate (date m1) \<le> dateIso r" .
  from dayRow_fields(2)[OF row] first
    two_disclosures_lookup[OF assms(1-3), of "dateIso r"]
  show ?thesis by (cases "dateIso r < normalizeDate (date m5)") simp_all
qed

theorem forward_fill_correct_witness:
  "eth_holdings (disclosure (day 1) (Num (Fin 100)) (Num (Fin 500)) Undefined) = Num (Fin 100)
   \<and> eth_holdings (disclosure (day 5) (Num (Fin 150)) Undefined Undefined) = Num (Fin 150)
   \<and> normalizeDate (date (disclosure (day 1) (Num (Fin 100)) (Num (Fin 500)) Undefined))
       < normalizeDate (date (disclosure (day 5) (Num (Fin 150)) Undefined Undefined))
   \<and> filledSeries ! 2 \<in> set (postFillMetrics
         [disclosure (day 1) (Num (Fin 100)) (Num (Fin 500)) Undefined,
          disclosure (day 5) (Num (Fin 150)) Undefined Undefined]
         [closingPrice (day 1) 10] (day 1) (day 6))
   \<and> filledSeries ! 4 \<in> set (postFillMetrics
         [disclosure (day 1) (Num (Fin 100)) (Num (Fin 500)) Undefined,
          disclosure (day 5) (Num (Fin 150)) Undefined Undefined]
         [closingPrice (day 1) 10] (day 1) (day 6))
   \<and> map dateIso filledSeries = [day 1, day 2, day 3, day 4, day 5, day 6]
   \<and> ethHoldings (filledSeries ! 2) = Fin 100
   \<and> ethHoldings (filledSeries ! 4) = Fin 150"
proof -
  have a: "eth_holdings (disclosure (day 1) (Num (Fin 100)) (Num (Fin 500)) Undefined) = Num (Fin 100)"
    and b: "eth_holdings (disclosure (day 5) (Num (Fin 150)) Undefined Undefined) = Num (Fin 150)"
    by (simp_all add: disclosure_def)
  have c: "normalizeDate (date (disclosure (day 1) (Num (Fin 100)) (Num (Fin 500)) Undefined))
       < normalizeDate (date (disclosure (day 5) (Num (Fin 150)) Undefined Undefined))"
    by code_simp
  have h: "filledSeries ! 2 \<in> set (postFillMetrics
         [disclosure (day 1) (Num (Fin 100)) (Num (Fin 500)) Undefined,
          disclosure (day 5) (Num (Fin 150)) Undefined Undefined]
         [closingPrice (day 1) 10] (day 1) (day 6))"
    by code_simp
  have h': "filledSeries ! 4 \<in> set (postFillMetrics
         [disclosure (day 1) (Num (Fin 100)) (Num (Fin 500)) Undefined,
          disclosure (day 5) (Num (Fin 150)) Undefined Undefined]
         [closingPrice (day 1) 10] (day 1) (day 6))"
    by code_simp
  have d: "map dateIso filledSeries = [day 1, day 2, day 3, day 4, day 5, day 6]"
    by code_simp
  have e: "dateIso (filledSeries ! 2)
       < normalizeDate (date (disclosure (day 5) (Num (Fin 150)) Undefined Undefined))"
    by code_simp
  have e': "\<not> dateIso (filledSeries ! 4)
       < normalizeDate (date (disclosure (day 5) (Num (Fin 150)) Undefined Undefined))"
    by code_simp
  from forward_fill_correct[OF a b c h] forward_fill_correct[OF a b c h'] e e' a b c h h' d
  show ?thesis by simp
qed

section \<open>Zero values in the filler and in the NAV computation\<close>







section \<open>Results of the NAV computation\<close>




text \<open>
  C8 (as stated, refuted). On holdings 1000, asset price 2000, cash 500000, other assets
  0, 10000 shares and equity price 250 the total NAV is not 2500500, the NAV per share is
  not 250.05 and the mNAV is not 2500000 / 2500500.
\<close>

theorem nav_round_trip_differs:
  "map_option totalNavValue
       (navOfLatestMetric ''bmnr'' (day 1) roundTripMetric (Fin 250) (Fin 2000) (Fin 0))
     \<noteq> Some (Fin 2500500)
   \<and> map_option navPerShare
       (navOfLatestMetric ''bmnr'' (day 1) roundTripMetric (Fin 250) (Fin 2000) (Fin 0))
     \<noteq> Some (Fin (25005 / 100))
   \<and> map_option mNav
       (navOfLatestMetric ''bmnr'' (day 1) roundTripMetric (Fin 250) (Fin 2000) (Fin 0))
     \<noteq> Some (Fin (2500000 / 2500500))"
  by code_simp

text \<open>
  C8 (amended). On these inputs the total NAV is 1000 * 2000 + 500000 + 0 = 2500000, the
  NAV per share 250, the market capitalisation 250 * 10000 = 2500000 and the mNAV 1.
\<close>

theorem nav_round_trip:
  "navOfLatestMetric cid now
     (lm\<lparr>ethHoldings := Fin 1000, sharesOutstanding := Fin 10000, usdHoldings := Fin 500000\<rparr>)
     (Fin 250) (Fin 2000) (Fin 0)
   = Some \<lparr> nav_companyId = cid, nav_date = now div msPerDay, navPerShare = Fin 250,
       stockPrice = Fin 250, ethPrice = Fin 2000, mNav = Fin 1, totalNavValue = Fin 2500000 \<rparr>
   \<and> jmul (Fin 250)
        (sharesOutstanding
          (lm\<lparr>ethHoldings := Fin 1000, sharesOutstanding := Fin 10000, usdHoldings := Fin 500000\<rparr>))
     = Fin 2500000"
  by (simp add: navOfLatestMetric_def Let_def)

theorem nav_round_trip_witness:
  "navOfLatestMetric ''bmnr'' (day 1) roundTripMetric (Fin 250) (Fin 2000) (Fin 0)
   = Some \<lparr> nav_companyId = ''bmnr'', nav_date = day 1 div msPerDay, navPerShare = Fin 250,
       stockPrice = Fin 250, ethPrice = Fin 2000, mNav = Fin 1, totalNavValue = Fin 2500000 \<rparr>
   \<and> jmul (Fin 250) (sharesOutstanding roundTripMetric) = Fin 2500000"
proof -
  have "roundTripMetric\<lparr>ethHoldings := Fin 1000, sharesOutstanding := Fin 10000,
          usdHoldings := Fin 500000\<rparr> = roundTripMetric"
    by (simp add: roundTripMetric_def)
  with nav_round_trip[of "''bmnr''" "day 1" roundTripMetric] show ?thesis by simp
qed




lemma MnavMonitorService_guard:
  assumes "jle (jadd (jmul (orZero (eth_holdings latestMetric)) (orZero currentEthPrice))
                     (orZero (usd_holdings latestMetric))) (Fin 0)"
  shows "MnavMonitorService_calculateCurrentMnav (latestMetric # metrics) stockPrices currentEthPrice
         = None"
  using assms
  by (simp add: MnavMonitorService_calculateCurrentMnav_def Let_def split: list.splits)

text \<open>
  C6. \<open>calculateCurrentNAV\<close> has no guard on the total NAV. With cash of -5 million
  against holdings worth 2 million it returns a result with total NAV -3000000 and mNAV
  -5/6; with cash of -2 million the total NAV is 0 and the mNAV is \<open>Infinity\<close>; and
  \<open>calculateCurrentMnav\<close> hands both to the alert check. The monitor service's own
  computation returns nothing when the total NAV is zero or negative.
\<close>

theorem calculateCurrentNAV_nonpositive_nav:
  "calculateCurrentNAV (exampleWorld (day 1) (Num (Fin 100)) (Num (Fin (- 5)))) ''bmnr''
       Undefined Undefined
   = Some \<lparr> nav_companyId = ''bmnr'', nav_date = 20251, navPerShare = Fin (- 300),
       stockPrice = Fin 250, ethPrice = Fin 2000, mNav = Fin (- (5 / 6)),
       totalNavValue = Fin (- 3000000) \<rparr>
   \<and> calculateCurrentMnav (exampleWorld (day 1) (Num (Fin 100)) (Num (Fin (- 5)))) ''bmnr''
     = Some (Fin (- (5 / 6)))
   \<and> calculateCurrentNAV (exampleWorld (day 1) (Num (Fin 100)) (Num (Fin (- 2)))) ''bmnr''
       Undefined Undefined
   = Some \<lparr> nav_companyId = ''bmnr'', nav_date = 20251, navPerShare = Fin 0,
       stockPrice = Fin 250, ethPrice = Fin 2000, mNav = PInf, totalNavValue = Fin 0 \<rparr>
   \<and> calculateCurrentMnav (exampleWorld (day 1) (Num (Fin 100)) (Num (Fin (- 2)))) ''bmnr''
     = Some PInf"
  by code_simp

theorem calculateCurrentNAV_nonpositive_nav_witness:
  "map_option totalNavValue
     (calculateCurrentNAV (exampleWorld (day 1) (Num (Fin 100)) (Num (Fin (- 5)))) ''bmnr''
        Undefined Undefined) = Some (Fin (- 3000000))
   \<and> jlt (Fin (- 3000000)) (Fin 0)
   \<and> map_option totalNavValue
     (calculateCurrentNAV (exampleWorld (day 1) (Num (Fin 100)) (Num (Fin (- 2)))) ''bmnr''
        Undefined Undefined) = Some (Fin 0)
   \<and> calculateCurrentMnav (exampleWorld (day 1) (Num (Fin 100)) (Num (Fin (- 2)))) ''bmnr''
     = Some PInf"
  using calculateCurrentNAV_nonpositive_nav by simp

section \<open>The alert monitor: what one invocation writes\<close>

lemma checkOneAlert_cases:
  "checkOneAlert iv m s a =
     (if alertFires iv m a
      then \<lparr> store = (if updateError iv a then insertNotification a m (store s)
                      else updateLastTriggered (alert_id a) (clock (world iv)) (insertNotification a m (store s))),
             alertsTriggered = alertsTriggered s + 1,
             notificationsCreated = notificationsCreated s @ [length (mnav_notifications (store s))] \<rparr>
      else s)"
  by (auto simp: checkOneAlert_def alertFires_def Let_def)

lemma notificationsFor_insert:
  "notificationsFor x (insertNotification a m st) =
     notificationsFor x st @ (if alert_id a = x then
        [\<lparr> n_alert_id = alert_id a, n_user_id = user_id a, n_company_id = alert_company_id a,
           mnav_value = m, n_threshold_value = threshold_value a, n_alert_type = alert_type a \<rparr>] else [])"
  by (simp add: notificationsFor_def insertNotification_def)

lemma notificationsFor_update [simp]:
  "notificationsFor x (updateLastTriggered i t st) = notificationsFor x st"
  by (simp add: notificationsFor_def updateLastTriggered_def)

lemma rowsOf_insert [simp]:
  "rowsOf x (insertNotification a m st) = rowsOf x st"
  by (simp add: rowsOf_def insertNotification_def)

lemma rowsOf_update_other:
  "i \<noteq> x \<Longrightarrow> rowsOf x (updateLastTriggered i t st) = rowsOf x st"
proof -
  have "filter (\<lambda>row. alert_id row = x)
          (map (\<lambda>row. if alert_id row = i then row\<lparr>last_triggered_at := Some t\<rparr> else row) rows)
        = filter (\<lambda>row. alert_id row = x) rows" if "i \<noteq> x" for rows
    using that by (induction rows) auto
  then show "i \<noteq> x \<Longrightarrow> rowsOf x (updateLastTriggered i t st) = rowsOf x st"
    by (simp add: rowsOf_def updateLastTriggered_def)
qed

lemma checkOneAlert_count:
  "length (notificationsFor x (store (checkOneAlert iv m s a))) =
     length (notificationsFor x (store s)) + (if alertFires iv m a \<and> alert_id a = x then 1 else 0)"
  by (simp add: checkOneAlert_cases notificationsFor_insert)

lemma checkOneAlert_rows:
  "\<not> (alertFires iv m a \<and> alert_id a = x) \<Longrightarrow> rowsOf x (store (checkOneAlert iv m s a)) = rowsOf x (store s)"
  by (auto simp: checkOneAlert_cases rowsOf_update_other)

lemma foldl_checkOneAlert_count:
  "length (notificationsFor x (store (foldl (checkOneAlert iv m) s as))) =
     length (notificationsFor x (store s)) + length (filter (\<lambda>a. alertFires iv m a \<and> alert_id a = x) as)"
  by (induction as arbitrary: s) (simp_all add: checkOneAlert_count)

lemma foldl_checkOneAlert_rows:
  "\<forall>a\<in>set as. \<not> (alertFires iv m a \<and> alert_id a = x) \<Longrightarrow>
     rowsOf x (store (foldl (checkOneAlert iv m) s as)) = rowsOf x (store s)"
  by (induction as arbitrary: s) (simp_all add: checkOneAlert_rows)

lemma checkCompany_count:
  assumes "\<forall>a\<in>set (snd entry). alert_company_id a = fst entry"
  shows "length (notificationsFor x (store (checkCompany iv s entry))) =
     length (notificationsFor x (store s)) + length (filter (\<lambda>a. alertTriggers iv a \<and> alert_id a = x) (snd entry))"
proof (cases "calculateCurrentMnav (world iv) (fst entry)")
  case None
  with assms have "filter (\<lambda>a. alertTriggers iv a \<and> alert_id a = x) (snd entry) = []"
    by (auto simp: alertTriggers_def filter_empty_conv)
  with None show ?thesis by (simp add: checkCompany_def)
next
  case (Some m)
  with assms have "filter (\<lambda>a. alertTriggers iv a \<and> alert_id a = x) (snd entry)
      = filter (\<lambda>a. alertFires iv m a \<and> alert_id a = x) (snd entry)"
    by (auto simp: alertTriggers_def intro!: filter_cong)
  with Some show ?thesis by (simp add: checkCompany_def foldl_checkOneAlert_count)
qed

lemma checkCompany_rows:
  assumes "\<forall>a\<in>set (snd entry). alert_company_id a = fst entry"
    and "\<forall>a\<in>set (snd entry). \<not> (alertTriggers iv a \<and> alert_id a = x)"
  shows "rowsOf x (store (checkCompany iv s entry)) = rowsOf x (store s)"
proof (cases "calculateCurrentMnav (world iv) (fst entry)")
  case None
  then show ?thesis by (simp add: checkCompany_def)
next
  case (Some m)
  with assms have "\<forall>a\<in>set (snd entry). \<not> (alertFires iv m a \<and> alert_id a = x)"
    by (auto simp: alertTriggers_def)
  with Some show ?thesis by (simp add: checkCompany_def foldl_checkOneAlert_rows)
qed

lemma foldl_checkCompany_count:
  "wellKeyed groups \<Longrightarrow>
   length (notificationsFor x (store (foldl (checkCompany iv) s groups))) =
     length (notificationsFor x (store s)) +
     length (filter (\<lambda>a. alertTriggers iv a \<and> alert_id a = x) (concat (map snd groups)))"
  by (induction groups arbitrary: s) (simp_all add: wellKeyed_def checkCompany_count)

lemma foldl_checkCompany_rows:
  "wellKeyed groups \<Longrightarrow>
   \<forall>a\<in>set (concat (map snd groups)). \<not> (alertTriggers iv a \<and> alert_id a = x) \<Longrightarrow>
   rowsOf x (store (foldl (checkCompany iv) s groups)) = rowsOf x (store s)"
  by (induction groups arbitrary: s) (simp_all add: wellKeyed_def checkCompany_rows)

lemma wellKeyed_Cons:
  "wellKeyed (entry # groups) = ((\<forall>a\<in>set (snd entry). alert_company_id a = fst entry) \<and> wellKeyed groups)"
  by (simp add: wellKeyed_def)

lemma pushAlert_wellKeyed: "wellKeyed acc \<Longrightarrow> wellKeyed (pushAlert acc a)"
proof (induction acc)
  case Nil
  then show ?case by (simp add: wellKeyed_def)
next
  case (Cons entry acc)
  obtain k as where e: "entry = (k, as)" by (cases entry)
  from Cons.prems have 1: "\<forall>b\<in>set as. alert_company_id b = k" and 2: "wellKeyed acc"
    by (simp_all add: wellKeyed_Cons e)
  show ?case
  proof (cases "k = alert_company_id a")
    case True
    with 1 2 show ?thesis by (simp add: e wellKeyed_Cons)
  next
    case False
    with 1 Cons.IH[OF 2] show ?thesis by (simp add: e wellKeyed_Cons)
  qed
qed

lemma pushAlert_filter_length:
  "length (filter P (concat (map snd (pushAlert acc a)))) =
     length (filter P (concat (map snd acc))) + (if P a then 1 else 0)"
proof (induction acc)
  case Nil
  show ?case by simp
next
  case (Cons entry acc)
  obtain k as where e: "entry = (k, as)" by (cases entry)
  show ?case
  proof (cases "k = alert_company_id a")
    case True
    then show ?thesis by (simp add: e)
  next
    case False
    with Cons.IH show ?thesis by (simp add: e)
  qed
qed

lemma pushAlert_set:
  "(\<Union>e\<in>set (pushAlert acc a). set (snd e)) = insert a (\<Union>e\<in>set acc. set (snd e))"
proof (induction acc)
  case Nil
  show ?case by simp
next
  case (Cons entry acc)
  obtain k as where e: "entry = (k, as)" by (cases entry)
  show ?case
  proof (cases "k = alert_company_id a")
    case True
    then show ?thesis by (simp add: e)
  next
    case False
    with Cons.IH show ?thesis by (simp add: e insert_commute Un_insert_right)
  qed
qed

lemma foldl_pushAlert_wellKeyed:
  "wellKeyed acc \<Longrightarrow> wellKeyed (foldl pushAlert acc alerts)"
  by (induction alerts arbitrary: acc) (simp_all add: pushAlert_wellKeyed)

lemma foldl_pushAlert_filter_length:
  "length (filter P (concat (map snd (foldl pushAlert acc alerts)))) =
     length (filter P (concat (map snd acc))) + length (filter P alerts)"
  by (induction alerts arbitrary: acc) (simp_all add: pushAlert_filter_length)

lemma foldl_pushAlert_set:
  "(\<Union>e\<in>set (foldl pushAlert acc alerts). set (snd e)) = (\<Union>e\<in>set acc. set (snd e)) \<union> set alerts"
  by (induction alerts arbitrary: acc) (simp_all add: pushAlert_set)

lemma alertsByCompany_wellKeyed: "wellKeyed (alertsByCompany alerts)"
proof -
  have "wellKeyed []" by (simp add: wellKeyed_def)
  then show ?thesis unfolding alertsByCompany_def by (rule foldl_pushAlert_wellKeyed)
qed

lemma alertsByCompany_filter_length:
  "length (filter P (concat (map snd (alertsByCompany alerts)))) = length (filter P alerts)"
  unfolding alertsByCompany_def by (simp add: foldl_pushAlert_filter_length)

lemma alertsByCompany_set:
  "(\<Union>e\<in>set (alertsByCompany alerts). set (snd e)) = set alerts"
  unfolding alertsByCompany_def by (simp add: foldl_pushAlert_set)

lemma distinct_filter_one:
  "distinct (map f xs) \<Longrightarrow> a \<in> set xs \<Longrightarrow>
     length (filter (\<lambda>y. P y \<and> f y = f a) xs) = (if P a then 1 else 0)"
proof (induction xs)
  case Nil
  then show ?case by simp
next
  case (Cons y ys)
  show ?case
  proof (cases "y = a")
    case True
    with Cons.prems have "\<forall>z\<in>set ys. f z \<noteq> f a" by (auto simp: image_iff)
    then have "filter (\<lambda>y. P y \<and> f y = f a) ys = []" by (auto simp: filter_empty_conv)
    with True show ?thesis by simp
  next
    case False
    with Cons.prems have "a \<in> set ys" "f y \<noteq> f a" "distinct (map f ys)" by auto
    with Cons.IH show ?thesis by simp
  qed
qed

lemma checkMnavThresholds_store:
  assumes "checkMnavThresholds iv st = Some (res, st')" and "active_mnav_alerts st \<noteq> []"
  shows "st' = store (foldl (checkCompany iv)
       \<lparr> store = st, alertsTriggered = 0, notificationsCreated = [] \<rparr>
       (alertsByCompany (active_mnav_alerts st)))"
proof -
  have "\<not> alertsError iv"
    using assms(1) by (cases "alertsError iv") (simp_all add: checkMnavThresholds_def)
  with assms show ?thesis by (simp add: checkMnavThresholds_def Let_def)
qed

lemma active_distinct:
  "distinct (map alert_id (mnav_threshold_alerts st)) \<Longrightarrow> distinct (map alert_id (active_mnav_alerts st))"
  by (simp add: active_mnav_alerts_def distinct_map_filter)

lemma checkMnavThresholds_count:
  assumes "checkMnavThresholds iv st = Some (res, st')"
    and "distinct (map alert_id (mnav_threshold_alerts st))"
    and "a \<in> set (active_mnav_alerts st)"
  shows "length (notificationsFor (alert_id a) st') =
         length (notificationsFor (alert_id a) st) + (if alertTriggers iv a then 1 else 0)"
proof -
  let ?alerts = "active_mnav_alerts st"
  let ?s0 = "\<lparr> store = st, alertsTriggered = 0, notificationsCreated = [] \<rparr>"
  from assms(3) have ne: "?alerts \<noteq> []" by auto
  have "length (notificationsFor (alert_id a) st') =
        length (notificationsFor (alert_id a) (store ?s0)) +
        length (filter (\<lambda>b. alertTriggers iv b \<and> alert_id b = alert_id a)
                  (concat (map snd (alertsByCompany ?alerts))))"
    unfolding checkMnavThresholds_store[OF assms(1) ne]
    by (rule foldl_checkCompany_count[OF alertsByCompany_wellKeyed])
  also have "length (filter (\<lambda>b. alertTriggers iv b \<and> alert_id b = alert_id a)
                  (concat (map snd (alertsByCompany ?alerts)))) =
             length (filter (\<lambda>b. alertTriggers iv b \<and> alert_id b = alert_id a) ?alerts)"
    by (rule alertsByCompany_filter_length)
  also have "\<dots> = (if alertTriggers iv a then 1 else 0)"
    by (rule distinct_filter_one[OF active_distinct[OF assms(2)] assms(3)])
  finally show ?thesis by simp
qed

lemma checkMnavThresholds_rows:
  assumes "checkMnavThresholds iv st = Some (res, st')"
    and "distinct (map alert_id (mnav_threshold_alerts st))"
    and "a \<in> set (active_mnav_alerts st)"
    and "\<not> alertTriggers iv a"
  shows "rowsOf (alert_id a) st' = rowsOf (alert_id a) st"
proof -
  let ?alerts = "active_mnav_alerts st"
  let ?s0 = "\<lparr> store = st, alertsTriggered = 0, notificationsCreated = [] \<rparr>"
  from assms(3) have ne: "?alerts \<noteq> []" by auto
  note d = active_distinct[OF assms(2)]
  have "\<forall>b\<in>set (concat (map snd (alertsByCompany ?alerts))). \<not> (alertTriggers iv b \<and> alert_id b = alert_id a)"
  proof
    fix b assume "b \<in> set (concat (map snd (alertsByCompany ?alerts)))"
    then have b: "b \<in> set ?alerts" using alertsByCompany_set[of ?alerts] by auto
    show "\<not> (alertTriggers iv b \<and> alert_id b = alert_id a)"
    proof
      assume h: "alertTriggers iv b \<and> alert_id b = alert_id a"
      with d b assms(3) have "b = a" by (meson distinct_map inj_onD)
      with h assms(4) show False by simp
    qed
  qed
  from foldl_checkCompany_rows[OF alertsByCompany_wellKeyed this, of ?s0]
  show ?thesis unfolding checkMnavThresholds_store[OF assms(1) ne] by simp
qed

lemma active_member:
  assumes "a \<in> set (active_mnav_alerts st)"
  shows "a \<in> set (rowsOf (alert_id a) st)" and "is_active a"
  using assms by (simp_all add: active_mnav_alerts_def rowsOf_def)

lemma service_condition:
  "(if ty = ''below'' then jlt m t else if ty = ''above'' then jgt m t else False)
   = checkAlertCondition m t ty"
  by (simp add: checkAlertCondition_def)



text \<open>
  C5. Direction \<open>above\<close> is \<open>currentMnav > threshold\<close>, direction \<open>below\<close> is
  \<open>currentMnav < threshold\<close>, and a value equal to the threshold satisfies neither: for
  a rule whose company's mNAV equals its threshold, \<open>shouldTriggerAlert\<close> is false and an
  invocation of \<open>checkMnavThresholds\<close> adds no notification for the rule and leaves its
  row as it was.
\<close>

theorem threshold_boundary:
  assumes "checkMnavThresholds iv st = Some (res, st')"
    and "distinct (map alert_id (mnav_threshold_alerts st))"
    and "a \<in> set (active_mnav_alerts st)"
    and "calculateCurrentMnav (world iv) (alert_company_id a) = Some (threshold_value a)"
  shows "checkAlertCondition currentMnav threshold ''above'' = jgt currentMnav threshold
       \<and> checkAlertCondition currentMnav threshold ''below'' = jlt currentMnav threshold
       \<and> \<not> checkAlertCondition threshold threshold alertType
       \<and> \<not> MnavMonitorService_shouldTriggerAlert now a (threshold_value a)
       \<and> length (notificationsFor (alert_id a) st') = length (notificationsFor (alert_id a) st)
       \<and> rowsOf (alert_id a) st' = rowsOf (alert_id a) st"
proof -
  have irrefl: "\<not> jlt x x" for x by (cases x) simp_all
  have never: "\<not> checkAlertCondition x x ty" for x ty
    by (simp add: checkAlertCondition_def jgt_def irrefl)
  have nt: "\<not> alertTriggers iv a"
    using assms(4) never by (simp add: alertTriggers_def alertFires_def)
  have "\<not> MnavMonitorService_shouldTriggerAlert now a (threshold_value a)"
    using never[of "threshold_value a" "alert_type a"]
    by (simp add: MnavMonitorService_shouldTriggerAlert_def service_condition split: option.splits)
  moreover have "length (notificationsFor (alert_id a) st') = length (notificationsFor (alert_id a) st)"
    using checkMnavThresholds_count[OF assms(1-3)] nt by simp
  moreover have "rowsOf (alert_id a) st' = rowsOf (alert_id a) st"
    by (rule checkMnavThresholds_rows[OF assms(1-3) nt])
  ultimately show ?thesis
    using never by (simp add: checkAlertCondition_def)
qed

theorem threshold_boundary_witness:
  "checkMnavThresholds (exampleInvocation (day 1) False)
        (exampleStore (exampleRule ''below'' 1 None))
      = Some (\<lparr> alertsChecked = 1, res_alertsTriggered = 0, res_notificationsCreated = [] \<rparr>,
              exampleStore (exampleRule ''below'' 1 None))
   \<and> checkMnavThresholds (exampleInvocation (day 1) False)
        (exampleStore (exampleRule ''above'' 1 None))
      = Some (\<lparr> alertsChecked = 1, res_alertsTriggered = 0, res_notificationsCreated = [] \<rparr>,
              exampleStore (exampleRule ''above'' 1 None))
   \<and> calculateCurrentMnav (world (exampleInvocation (day 1) False)) ''bmnr'' = Some (Fin 1)
   \<and> \<not> MnavMonitorService_shouldTriggerAlert (day 1) (exampleRule ''below'' 1 None) (Fin 1)
   \<and> \<not> MnavMonitorService_shouldTriggerAlert (day 1) (exampleRule ''above'' 1 None) (Fin 1)
   \<and> length (notificationsFor ''rule-1'' (exampleStore (exampleRule ''below'' 1 None))) = 0"
proof -
  let ?b = "exampleRule ''below'' 1 None"
  let ?a = "exampleRule ''above'' 1 None"
  let ?iv = "exampleInvocation (day 1) False"
  have rb: "checkMnavThresholds ?iv (exampleStore ?b)
      = Some (\<lparr> alertsChecked = 1, res_alertsTriggered = 0, res_notificationsCreated = [] \<rparr>,
              exampleStore ?b)"
    by code_simp
  have ra: "checkMnavThresholds ?iv (exampleStore ?a)
      = Some (\<lparr> alertsChecked = 1, res_alertsTriggered = 0, res_notificationsCreated = [] \<rparr>,
              exampleStore ?a)"
    by code_simp
  have db: "distinct (map alert_id (mnav_threshold_alerts (exampleStore ?b)))"
    and da: "distinct (map alert_id (mnav_threshold_alerts (exampleStore ?a)))"
    and mb: "?b \<in> set (active_mnav_alerts (exampleStore ?b))"
    and ma: "?a \<in> set (active_mnav_alerts (exampleStore ?a))"
    and vb: "calculateCurrentMnav (world ?iv) (alert_company_id ?b) = Some (threshold_value ?b)"
    and va: "calculateCurrentMnav (world ?iv) (alert_company_id ?a) = Some (threshold_value ?a)"
    by code_simp+
  have v: "calculateCurrentMnav (world ?iv) ''bmnr'' = Some (Fin 1)"
    and t: "threshold_value ?b = Fin 1" "threshold_value ?a = Fin 1"
    and z: "length (notificationsFor ''rule-1'' (exampleStore ?b)) = 0"
    by code_simp+
  note tb = threshold_boundary[OF rb db mb vb, of "Fin 1" "Fin 1" "''below''" "day 1"]
  note ta = threshold_boundary[OF ra da ma va, of "Fin 1" "Fin 1" "''above''" "day 1"]
  have sb: "\<not> MnavMonitorService_shouldTriggerAlert (day 1) ?b (Fin 1)"
    using tb by (simp only: t simp_thms)
  have sa: "\<not> MnavMonitorService_shouldTriggerAlert (day 1) ?a (Fin 1)"
    using ta by (simp only: t simp_thms)
  show ?thesis
    by (intro conjI) (fact ra rb v sa sb z)+
qed

text \<open>
  C7. When the insert of the notification for a rule reports an error, an invocation of
  \<open>checkMnavThresholds\<close> leaves the rule's row as it was (so its \<open>last_triggered_at\<close>
  is unchanged and the rule is still among the active alerts) and adds no notification
  for it; \<open>recordTriggeredAlert\<close> returns \<open>null\<close> and leaves the store unchanged.
\<close>

theorem notification_failure_keeps_rule:
  assumes "checkMnavThresholds iv st = Some (res, st')"
    and "distinct (map alert_id (mnav_threshold_alerts st))"
    and "a \<in> set (active_mnav_alerts st)"
    and "notificationError iv a"
  shows "rowsOf (alert_id a) st' = rowsOf (alert_id a) st
       \<and> a \<in> set (active_mnav_alerts st')
       \<and> length (notificationsFor (alert_id a) st') = length (notificationsFor (alert_id a) st)
       \<and> MnavMonitorService_recordTriggeredAlert iv a m st0 = (None, st0)"
proof -
  have nt: "\<not> alertTriggers iv a"
    using assms(4) by (simp add: alertTriggers_def alertFires_def split: option.splits)
  have rows: "rowsOf (alert_id a) st' = rowsOf (alert_id a) st"
    by (rule checkMnavThresholds_rows[OF assms(1-3) nt])
  from active_member[OF assms(3)] have "a \<in> set (rowsOf (alert_id a) st')" "is_active a"
    by (simp_all add: rows)
  then have "a \<in> set (active_mnav_alerts st')"
    by (simp add: active_mnav_alerts_def rowsOf_def)
  moreover have "length (notificationsFor (alert_id a) st') = length (notificationsFor (alert_id a) st)"
    using checkMnavThresholds_count[OF assms(1-3)] nt by simp
  moreover have "MnavMonitorService_recordTriggeredAlert iv a m st0 = (None, st0)"
    using assms(4) by (simp add: MnavMonitorService_recordTriggeredAlert_def)
  ultimately show ?thesis using rows by simp
qed

theorem notification_failure_keeps_rule_witness:
  "checkMnavThresholds (exampleInvocation (day 1 + 7 * oneHour) True)
        (exampleStore (exampleRule ''below'' (3 / 2) (Some (day 1))))
      = Some (\<lparr> alertsChecked = 1, res_alertsTriggered = 0, res_notificationsCreated = [] \<rparr>,
              exampleStore (exampleRule ''below'' (3 / 2) (Some (day 1))))
   \<and> notificationError (exampleInvocation (day 1 + 7 * oneHour) True)
        (exampleRule ''below'' (3 / 2) (Some (day 1)))
   \<and> exampleRule ''below'' (3 / 2) (Some (day 1))
        \<in> set (active_mnav_alerts (exampleStore (exampleRule ''below'' (3 / 2) (Some (day 1)))))
   \<and> MnavMonitorService_recordTriggeredAlert (exampleInvocation (day 1 + 7 * oneHour) True)
        (exampleRule ''below'' (3 / 2) (Some (day 1))) (Fin 1)
        (exampleStore (exampleRule ''below'' (3 / 2) (Some (day 1))))
      = (None, exampleStore (exampleRule ''below'' (3 / 2) (Some (day 1))))"
proof -
  let ?r = "exampleRule ''below'' (3 / 2) (Some (day 1))"
  let ?iv = "exampleInvocation (day 1 + 7 * oneHour) True"
  have r: "checkMnavThresholds ?iv (exampleStore ?r)
      = Some (\<lparr> alertsChecked = 1, res_alertsTriggered = 0, res_notificationsCreated = [] \<rparr>,
              exampleStore ?r)"
    by code_simp
  have d: "distinct (map alert_id (mnav_threshold_alerts (exampleStore ?r)))"
    and a: "?r \<in> set (active_mnav_alerts (exampleStore ?r))"
    and e: "notificationError ?iv ?r"
    by code_simp+
  note t = notification_failure_keeps_rule[OF r d a e, of "Fin 1" "exampleStore ?r"]
  have s: "MnavMonitorService_recordTriggeredAlert ?iv ?r (Fin 1) (exampleStore ?r)
           = (None, exampleStore ?r)"
    using t by (simp only: simp_thms)
  show ?thesis
    by (intro conjI) (fact r a e s)+
qed

end
